theory Spec2Isabelle
  imports Complex_Main "HOL-Library.Word" "HOL-Library.Multiset"
begin

section \<open>JavaScript values\<close>

text \<open>
  A JavaScript string is a sequence of 16-bit code units; \<open>length\<close> counts code units,
  as \<^verbatim>\<open>String.prototype.length\<close> does. \<open>js\<close> turns an ASCII literal into such a string.
\<close>

type_synonym jschar = "16 word"
type_synonym jsstring = "jschar list"

definition js :: "string \<Rightarrow> jsstring" where
  "js s = map (\<lambda>c. of_nat (of_char c)) s"

text \<open>
  Numbers are IEEE doubles in the program. The model keeps the three special values apart
  and a finite value as the rational it denotes; rounding is not modelled.
\<close>

datatype jsnum = NaN | PosInf | NegInf | Fin rat

text \<open>
  The values a request can carry in a body field: JSON scalars and arrays of strings, and
  \<open>JUndefined\<close> for a field that is absent. Nested arrays and objects are outside the model.
\<close>

datatype jsval =
    JUndefined
  | JNull
  | JBool bool
  | JNum jsnum
  | JStr jsstring
  | JArr "jsstring list"

type_synonym jsobject = "jsstring \<rightharpoonup> jsval"

text \<open>Reading a property: \<^verbatim>\<open>obj.key\<close> is \<^verbatim>\<open>undefined\<close> when the key is absent.\<close>

definition getProp :: "jsobject \<Rightarrow> jsstring \<Rightarrow> jsval" where
  "getProp obj k = (case obj k of None \<Rightarrow> JUndefined | Some v \<Rightarrow> v)"

text \<open>
  Truthiness, as the operators \<^verbatim>\<open>!\<close>, \<^verbatim>\<open>&&\<close> and \<^verbatim>\<open>||\<close> read it: \<^verbatim>\<open>undefined\<close>, \<^verbatim>\<open>null\<close>,
  \<^verbatim>\<open>false\<close>, \<^verbatim>\<open>0\<close>, \<^verbatim>\<open>NaN\<close> and the empty string are falsy; every array is truthy, the
  empty one too.
\<close>

fun truthy :: "jsval \<Rightarrow> bool" where
  "truthy JUndefined = False"
| "truthy JNull = False"
| "truthy (JBool b) = b"
| "truthy (JNum n) = (n \<noteq> NaN \<and> n \<noteq> Fin 0)"
| "truthy (JStr s) = (s \<noteq> [])"
| "truthy (JArr xs) = True"

fun join :: "jsstring \<Rightarrow> jsstring list \<Rightarrow> jsstring" where
  "join sep [] = []"
| "join sep [x] = x"
| "join sep (x # y # ys) = x @ sep @ join sep (y # ys)"

text \<open>
  \<^verbatim>\<open>value.toString()\<close>. The decimal rendering of a number is the runtime's and is taken as
  the parameter \<open>fmt\<close>.
\<close>

fun ToString :: "(jsnum \<Rightarrow> jsstring) \<Rightarrow> jsval \<Rightarrow> jsstring" where
  "ToString fmt JUndefined = js ''undefined''"
| "ToString fmt JNull = js ''null''"
| "ToString fmt (JBool b) = (if b then js ''true'' else js ''false'')"
| "ToString fmt (JNum n) = fmt n"
| "ToString fmt (JStr s) = s"
| "ToString fmt (JArr xs) = join (js '','') xs"

section \<open>The product collection\<close>

text \<open>
  An ObjectId is twelve bytes, written as 24 hexadecimal digits; the model keeps its value.
\<close>

type_synonym objectid = nat

definition hexval :: "jschar \<Rightarrow> nat option" where
  "hexval c =
     (let n = unat c in
      if 48 \<le> n \<and> n \<le> 57 then Some (n - 48)
      else if 97 \<le> n \<and> n \<le> 102 then Some (n - 87)
      else if 65 \<le> n \<and> n \<le> 70 then Some (n - 55)
      else None)"

fun hexnum :: "nat \<Rightarrow> jsstring \<Rightarrow> nat option" where
  "hexnum acc [] = Some acc"
| "hexnum acc (c # cs) =
     (case hexval c of None \<Rightarrow> None | Some d \<Rightarrow> hexnum (16 * acc + d) cs)"

text \<open>
  The mapper's cast of a string to an ObjectId: a string of 24 hexadecimal digits is an
  id, any other string raises a CastError (\<open>None\<close>).
\<close>

definition parseObjectId :: "jsstring \<Rightarrow> objectid option" where
  "parseObjectId s = (if length s = 24 then hexnum 0 s else None)"

text \<open>
  \<^verbatim>\<open>ProductSchema\<close> of products.model.js: the paths \<^verbatim>\<open>name\<close>, \<^verbatim>\<open>description\<close>, \<^verbatim>\<open>image\<close> and
  \<^verbatim>\<open>author\<close>, all required, with \<^verbatim>\<open>timestamps: true\<close>; the mapper adds \<^verbatim>\<open>_id\<close>. The schema
  declares no other path. The collection itself has no schema: a stored document may
  hold further fields, written by another hand than this router's, and \<open>p_extra\<close> holds
  them.
\<close>

record product =
  p_id :: objectid
  p_name :: jsstring
  p_description :: jsstring
  p_image :: "jsstring list"
  p_author :: objectid
  p_createdAt :: nat
  p_updatedAt :: nat
  p_extra :: jsobject

definition schemaPaths :: "jsstring list" where
  "schemaPaths = [js ''name'', js ''description'', js ''image'', js ''author'']"

text \<open>
  The schema is strict (the mapper's default, which the schema does not switch off): a key
  of the constructor's argument that is not a path of the schema is dropped.
\<close>

definition strict :: "jsobject \<Rightarrow> jsobject" where
  "strict obj = obj |` set schemaPaths"

text \<open>The casts of the schema types; \<open>None\<close> is a CastError. The value is not null.\<close>

definition castString :: "(jsnum \<Rightarrow> jsstring) \<Rightarrow> jsval \<Rightarrow> jsstring option" where
  "castString fmt v = (case v of JArr xs \<Rightarrow> None | _ \<Rightarrow> Some (ToString fmt v))"

definition castObjectId :: "(jsnum \<Rightarrow> jsstring) \<Rightarrow> jsval \<Rightarrow> objectid option" where
  "castObjectId fmt v = parseObjectId (ToString fmt v)"

definition castStringArray :: "(jsnum \<Rightarrow> jsstring) \<Rightarrow> jsval \<Rightarrow> jsstring list option" where
  "castStringArray fmt v =
     (case v of JArr xs \<Rightarrow> Some xs
      | _ \<Rightarrow> (case castString fmt v of None \<Rightarrow> None | Some s \<Rightarrow> Some [s]))"

definition isNullish :: "jsval \<Rightarrow> bool" where
  "isNullish v = (v = JUndefined \<or> v = JNull)"

text \<open>
  What a request runs in: the clock, the ObjectId the driver generates for a new document,
  the runtime's rendering of numbers, the mapper's \<^verbatim>\<open>strictQuery\<close> option, which is set
  where the application connects, and the case folding of the database's regular
  expressions: two code units match without regard to case when they fold to the same.
\<close>

record env =
  now :: nat
  newObjectId :: objectid
  numberToString :: "jsnum \<Rightarrow> jsstring"
  strictQuery :: bool
  caseFold :: "jschar \<Rightarrow> jschar"

text \<open>
  \<^verbatim>\<open>new Products(obj)\<close> followed by validation: every path of the schema is read from the
  strict part of the argument, cast, and checked by its \<^verbatim>\<open>required\<close> validator. A required
  string is not empty. An array path that is not given defaults to the empty array, and a
  required array is not null: it may be empty. \<open>None\<close> is the ValidationError that
  \<^verbatim>\<open>save\<close> throws.
\<close>

definition validated :: "env \<Rightarrow> jsobject \<Rightarrow> product option" where
  "validated e obj =
     (let d = strict obj;
          n = getProp d (js ''name''); ds = getProp d (js ''description'');
          im = getProp d (js ''image''); au = getProp d (js ''author'')
      in if isNullish n \<or> isNullish ds \<or> im = JNull \<or> isNullish au then None
         else case (castString (numberToString e) n, castString (numberToString e) ds,
                    (if im = JUndefined then Some [] else castStringArray (numberToString e) im),
                    castObjectId (numberToString e) au) of
                (Some n', Some ds', Some im', Some au') \<Rightarrow>
                  if n' = [] \<or> ds' = [] then None
                  else Some \<lparr>p_id = newObjectId e, p_name = n', p_description = ds',
                             p_image = im', p_author = au',
                             p_createdAt = now e, p_updatedAt = now e,
                             p_extra = Map.empty\<rparr>
              | _ \<Rightarrow> None)"

text \<open>
  Reading a property of a product document in the handler. The paths \<^verbatim>\<open>name\<close>,
  \<^verbatim>\<open>description\<close> and \<^verbatim>\<open>image\<close> hold strings; \<^verbatim>\<open>_id\<close>, \<^verbatim>\<open>author\<close> and the two timestamps hold
  ObjectIds and dates, and are read from the record. A property that is no path of the
  schema, as \<^verbatim>\<open>category\<close>, \<^verbatim>\<open>price\<close> and \<^verbatim>\<open>quantity\<close>, reads as \<^verbatim>\<open>undefined\<close>, whatever the
  stored document holds: the strict schema defines no accessor for it.
\<close>

definition product_prop :: "product \<Rightarrow> jsstring \<Rightarrow> jsval" where
  "product_prop p k =
     (if k = js ''name'' then JStr (p_name p)
      else if k = js ''description'' then JStr (p_description p)
      else if k = js ''image'' then JArr (p_image p)
      else JUndefined)"

text \<open>
  A field of the stored document, as the database reads it when it matches a condition;
  \<^verbatim>\<open>undefined\<close> stands for a field the document does not have.
\<close>

definition storedField :: "product \<Rightarrow> jsstring \<Rightarrow> jsval" where
  "storedField p k =
     (if k = js ''name'' then JStr (p_name p)
      else if k = js ''description'' then JStr (p_description p)
      else if k = js ''image'' then JArr (p_image p)
      else getProp (p_extra p) k)"

text \<open>
  Modelled from the spec: the Review and User models of the repository are not among the
  sources. A Review has an identity, a reference to a Product (the foreign key
  \<^verbatim>\<open>productId\<close>), a reference to a User (\<^verbatim>\<open>userId\<close>) and content fields; a User has a
  username and an email.
\<close>

record review =
  r_id :: objectid
  r_productId :: objectid
  r_userId :: objectid
  r_content :: jsstring

record user =
  u_id :: objectid
  u_username :: jsstring
  u_email :: jsstring

record store =
  products :: "product list"
  reviews :: "review list"
  users :: "user list"

section \<open>Responses\<close>

text \<open>A populated reference: the projection of the referenced user, or null when it dangles.\<close>

record user_ref =
  ref_id :: objectid
  ref_username :: "jsstring option"
  ref_email :: "jsstring option"

record populated_product =
  pp_product :: product
  pp_author :: "user_ref option"

record populated_review =
  pr_review :: review
  pr_user :: "user_ref option"

datatype response =
    Created product
  | BadRequest
  | NotFound
  | ServerError
  | OkList "populated_product list" int nat
  | OkProduct populated_product "populated_review list"
  | OkDeleted
  | OkRelated "product list"

fun status :: "response \<Rightarrow> nat" where
  "status (Created p) = 201"
| "status BadRequest = 400"
| "status NotFound = 404"
| "status ServerError = 500"
| "status (OkList ps tp n) = 200"
| "status (OkProduct p rs) = 200"
| "status OkDeleted = 200"
| "status (OkRelated ps) = 200"

section \<open>POST /create-product\<close>

text \<open>The category the handler writes, \<^verbatim>\<open>U+0639 U+0627 U+0645\<close> (Arabic for "general").\<close>

definition generalCategory :: jsstring where
  "generalCategory = [0x0639, 0x0627, 0x0645]"

text \<open>The object literal handed to \<^verbatim>\<open>new Products\<close> (lines 61 to 71).\<close>

definition newProductArg :: "jsobject \<Rightarrow> jsobject" where
  "newProductArg body =
     [js ''name'' \<mapsto> getProp body (js ''name''),
      js ''description'' \<mapsto> getProp body (js ''description''),
      js ''image'' \<mapsto> getProp body (js ''image''),
      js ''author'' \<mapsto> getProp body (js ''author''),
      js ''category'' \<mapsto> JStr generalCategory,
      js ''price'' \<mapsto> JNum (Fin 0),
      js ''quantity'' \<mapsto> JNum (Fin 1)]"

text \<open>
  \<^verbatim>\<open>newProduct.save()\<close>: validation, then the insert, which the database refuses when the
  \<^verbatim>\<open>_id\<close> is taken. \<open>None\<close> is a rejected promise.
\<close>

definition save :: "env \<Rightarrow> store \<Rightarrow> jsobject \<Rightarrow> (product \<times> store) option" where
  "save e s obj =
     (case validated e obj of
        None \<Rightarrow> None
      | Some p \<Rightarrow>
          if p_id p \<in> set (map p_id (products s)) then None
          else Some (p, s\<lparr>products := products s @ [p]\<rparr>))"

definition create :: "env \<Rightarrow> store \<Rightarrow> jsobject \<Rightarrow> response \<times> store" where
  "create e s body =
     (let name = getProp body (js ''name''); description = getProp body (js ''description'');
          image = getProp body (js ''image''); author = getProp body (js ''author'')
      in if \<not> truthy name \<or> \<not> truthy description \<or> \<not> truthy image \<or> \<not> truthy author
         then (BadRequest, s)
         else case save e s (newProductArg body) of
                None \<Rightarrow> (ServerError, s)
              | Some (savedProduct, s') \<Rightarrow> (Created savedProduct, s'))"

text \<open>
  An environment and a request body for the examples. None of them renders a number, and
  their names are ASCII, folded by \<open>asciiFold\<close>.
\<close>

definition asciiFold :: "jschar \<Rightarrow> jschar" where
  "asciiFold c = (if 65 \<le> unat c \<and> unat c \<le> 90 then c + 32 else c)"

definition env0 :: env where
  "env0 = \<lparr>now = 1700000000000, newObjectId = 26, numberToString = (\<lambda>n. []),
           strictQuery = False, caseFold = asciiFold\<rparr>"

definition emptyStore :: store where
  "emptyStore = \<lparr>products = [], reviews = [], users = []\<rparr>"

definition hatBody :: jsobject where
  "hatBody = [js ''name'' \<mapsto> JStr (js ''Hat''),
              js ''description'' \<mapsto> JStr (js ''A felt hat''),
              js ''image'' \<mapsto> JArr [js ''uploads/products/hat.png''],
              js ''author'' \<mapsto> JStr (js ''0000000000000000000000a1'')]"

section \<open>Queries by id\<close>

text \<open>
  \<^verbatim>\<open>Products.findById(id)\<close>: the id of the request is a string, which the mapper casts to an
  ObjectId before it queries. The outer \<open>None\<close> is the CastError it throws for a string that
  is no ObjectId; the inner one is the \<^verbatim>\<open>null\<close> of a query that finds nothing.
\<close>

definition findById :: "product list \<Rightarrow> jsstring \<Rightarrow> product option option" where
  "findById ps productId =
     (case parseObjectId productId of
        None \<Rightarrow> None
      | Some oid \<Rightarrow> Some (find (\<lambda>p. p_id p = oid) ps))"

text \<open>
  \<^verbatim>\<open>populate(path, fields)\<close>: the reference is replaced by the projection of the user it
  names, or by \<^verbatim>\<open>null\<close> when there is no such user. Both calls that name two fields select
  \<^verbatim>\<open>username\<close> and \<^verbatim>\<open>email\<close>; the list selects \<^verbatim>\<open>email\<close> alone.
\<close>

definition populate :: "user list \<Rightarrow> bool \<Rightarrow> objectid \<Rightarrow> user_ref option" where
  "populate us withUsername uid =
     (case find (\<lambda>u. u_id u = uid) us of
        None \<Rightarrow> None
      | Some u \<Rightarrow>
          Some \<lparr>ref_id = u_id u,
                ref_username = (if withUsername then Some (u_username u) else None),
                ref_email = Some (u_email u)\<rparr>)"

definition populateAuthor :: "user list \<Rightarrow> bool \<Rightarrow> product \<Rightarrow> populated_product" where
  "populateAuthor us withUsername p =
     \<lparr>pp_product = p, pp_author = populate us withUsername (p_author p)\<rparr>"

definition populateUserId :: "user list \<Rightarrow> review \<Rightarrow> populated_review" where
  "populateUserId us r = \<lparr>pr_review = r, pr_user = populate us True (r_userId r)\<rparr>"

section \<open>GET /:id\<close>

definition getProduct :: "store \<Rightarrow> jsstring \<Rightarrow> response" where
  "getProduct s productId =
     (case findById (products s) productId of
        None \<Rightarrow> ServerError
      | Some None \<Rightarrow> NotFound
      | Some (Some product) \<Rightarrow>
          OkProduct (populateAuthor (users s) True product)
            (map (populateUserId (users s))
               (filter (\<lambda>r. r_productId r = p_id product) (reviews s))))"

section \<open>DELETE /:id\<close>

text \<open>\<^verbatim>\<open>findByIdAndDelete\<close> removes the document it finds, the first with that id.\<close>

fun deleteFirst :: "('a \<Rightarrow> bool) \<Rightarrow> 'a list \<Rightarrow> 'a list" where
  "deleteFirst P [] = []"
| "deleteFirst P (x # xs) = (if P x then xs else x # deleteFirst P xs)"

definition deleteProduct :: "store \<Rightarrow> jsstring \<Rightarrow> response \<times> store" where
  "deleteProduct s productId =
     (case findById (products s) productId of
        None \<Rightarrow> (ServerError, s)
      | Some None \<Rightarrow> (NotFound, s)
      | Some (Some deletedProduct) \<Rightarrow>
          (let s1 = s\<lparr>products := deleteFirst (\<lambda>p. p_id p = p_id deletedProduct) (products s)\<rparr>;
               s2 = s1\<lparr>reviews := filter (\<lambda>r. r_productId r \<noteq> p_id deletedProduct) (reviews s1)\<rparr>
           in (OkDeleted, s2)))"

section \<open>Numbers as doubles\<close>

text \<open>
  The double nearest to the ratio \<open>a / b\<close> of two natural numbers (\<open>b\<close> not 0), ties to
  the even significand: 53 bits of significand, the least exponent \<open>-1022\<close> below which
  the spacing stays \<open>2^-1074\<close>, and \<^verbatim>\<open>Infinity\<close> from \<open>2^1024\<close> on.
\<close>

fun bitLength :: "nat \<Rightarrow> nat" where
  "bitLength n = (if n = 0 then 0 else Suc (bitLength (n div 2)))"

declare bitLength.simps [simp del]

definition roundHalfEven :: "nat \<Rightarrow> nat \<Rightarrow> nat" where
  "roundHalfEven x y =
     (let q = x div y; r = x mod y
      in if y < 2 * r \<or> (2 * r = y \<and> odd q) then q + 1 else q)"

definition toDouble :: "nat \<Rightarrow> nat \<Rightarrow> jsnum" where
  "toDouble a b =
     (if a = 0 then Fin 0
      else
        (let d = int (bitLength a) - int (bitLength b);
             e = (if (if 0 \<le> d then b * 2 ^ nat d \<le> a else b \<le> a * 2 ^ nat (- d))
                  then d else d - 1);
             s = max e (- 1022) - 52;
             n = (if 0 \<le> s then roundHalfEven a (b * 2 ^ nat s)
                  else roundHalfEven (a * 2 ^ nat (- s)) b)
         in if 0 \<le> s then
              (if 2 ^ 1024 \<le> n * 2 ^ nat s then PosInf else Fin (of_nat (n * 2 ^ nat s)))
            else Fin (of_nat n / 2 ^ nat (- s))))"

fun negate :: "jsnum \<Rightarrow> jsnum" where
  "negate NaN = NaN"
| "negate PosInf = NegInf"
| "negate NegInf = PosInf"
| "negate (Fin x) = Fin (- x)"

section \<open>GET /\<close>

text \<open>
  The white space that \<^verbatim>\<open>parseInt\<close> and \<^verbatim>\<open>parseFloat\<close> skip: the code units of
  \<^verbatim>\<open>WhiteSpace\<close> and \<^verbatim>\<open>LineTerminator\<close>.
\<close>

definition isWhiteSpace :: "jschar \<Rightarrow> bool" where
  "isWhiteSpace c =
     (unat c \<in> {9, 10, 11, 12, 13, 32, 160, 5760, 8232, 8233, 8239, 8287, 12288, 65279}
      \<or> (8192 \<le> unat c \<and> unat c \<le> 8202))"

definition isDigit :: "jschar \<Rightarrow> bool" where
  "isDigit c = (48 \<le> unat c \<and> unat c \<le> 57)"

definition radixDigit :: "nat \<Rightarrow> jschar \<Rightarrow> nat option" where
  "radixDigit R c = (if R = 16 then hexval c else if isDigit c then Some (unat c - 48) else None)"

fun readDigits :: "nat \<Rightarrow> jsstring \<Rightarrow> nat list" where
  "readDigits R [] = []"
| "readDigits R (c # cs) =
     (case radixDigit R c of None \<Rightarrow> [] | Some d \<Rightarrow> d # readDigits R cs)"

definition digitsValue :: "nat \<Rightarrow> nat list \<Rightarrow> nat" where
  "digitsValue R ds = foldl (\<lambda>a d. R * a + d) 0 ds"

text \<open>
  \<^verbatim>\<open>parseInt(string)\<close> with no radix: leading white space, a sign, the prefix \<^verbatim>\<open>0x\<close> for
  radix 16, then the longest run of digits, \<open>NaN\<close> when there is none. The result is the
  double nearest to the integer read.
\<close>

definition parseInt :: "jsstring \<Rightarrow> jsnum" where
  "parseInt str =
     (let S = dropWhile isWhiteSpace str;
          neg = (S \<noteq> [] \<and> hd S = 0x2D);
          S1 = (if S \<noteq> [] \<and> (hd S = 0x2B \<or> hd S = 0x2D) then tl S else S);
          hex = (take 2 S1 = js ''0x'' \<or> take 2 S1 = js ''0X'');
          R = (if hex then 16 else 10);
          Z = readDigits R (if hex then drop 2 S1 else S1)
      in if Z = [] then NaN
         else if neg then negate (toDouble (digitsValue R Z) 1)
         else toDouble (digitsValue R Z) 1)"

text \<open>The exponent part of a decimal literal, 0 when there is none.\<close>

definition exponentPart :: "jsstring \<Rightarrow> int" where
  "exponentPart r =
     (if r \<noteq> [] \<and> (hd r = 0x65 \<or> hd r = 0x45) then
        (let t = tl r;
             neg = (t \<noteq> [] \<and> hd t = 0x2D);
             t1 = (if t \<noteq> [] \<and> (hd t = 0x2B \<or> hd t = 0x2D) then tl t else t);
             ds = readDigits 10 t1
         in if ds = [] then 0 else (if neg then - 1 else 1) * int (digitsValue 10 ds))
      else 0)"

text \<open>
  \<^verbatim>\<open>parseFloat(string)\<close>: leading white space, then the longest prefix that is a decimal
  literal: a sign, then \<^verbatim>\<open>Infinity\<close>, or digits with an optional fraction and exponent;
  \<open>NaN\<close> when there is no such prefix. The result is the double nearest to the literal:
  the digits \<open>ip\<close> and \<open>fp\<close> around the point, read as one integer, times the power of ten
  that the exponent and the length of the fraction give.
\<close>

definition parseFloat :: "jsstring \<Rightarrow> jsnum" where
  "parseFloat str =
     (let S = dropWhile isWhiteSpace str;
          neg = (S \<noteq> [] \<and> hd S = 0x2D);
          S1 = (if S \<noteq> [] \<and> (hd S = 0x2B \<or> hd S = 0x2D) then tl S else S)
      in if take 8 S1 = js ''Infinity'' then (if neg then NegInf else PosInf)
         else
           (let ip = readDigits 10 S1;
                r1 = drop (length ip) S1;
                dot = (r1 \<noteq> [] \<and> hd r1 = 0x2E);
                fp = (if dot then readDigits 10 (tl r1) else []);
                r2 = (if dot then drop (length fp) (tl r1) else r1);
                k = exponentPart r2 - int (length fp);
                m = digitsValue 10 (ip @ fp);
                v = (if 0 \<le> k then toDouble (m * 10 ^ nat k) 1 else toDouble m (10 ^ nat (- k)))
            in if ip = [] \<and> fp = [] then NaN
               else if neg then negate v else v))"

text \<open>
  The query string of the request: the parameters that occur once, with their string
  values. A parameter that is absent is \<^verbatim>\<open>undefined\<close>.
\<close>

type_synonym query = "jsstring \<rightharpoonup> jsstring"

record filter =
  f_category :: "jsstring option"
  f_color :: "jsstring option"
  f_price :: "(jsnum \<times> jsnum) option"

definition buildFilter :: "query \<Rightarrow> filter" where
  "buildFilter q =
     \<lparr>f_category =
        (case q (js ''category'') of
           Some category \<Rightarrow> if category \<noteq> [] \<and> category \<noteq> js ''all'' then Some category else None
         | None \<Rightarrow> None),
      f_color =
        (case q (js ''color'') of
           Some color \<Rightarrow> if color \<noteq> [] \<and> color \<noteq> js ''all'' then Some color else None
         | None \<Rightarrow> None),
      f_price =
        (case (q (js ''minPrice''), q (js ''maxPrice'')) of
           (Some minPrice, Some maxPrice) \<Rightarrow>
             if minPrice \<noteq> [] \<and> maxPrice \<noteq> [] then
               (let min = parseFloat minPrice; max = parseFloat maxPrice
                in if min \<noteq> NaN \<and> max \<noteq> NaN then Some (min, max) else None)
             else None
         | _ \<Rightarrow> None)\<rparr>"

text \<open>
  The mapper's cast of the filter. None of \<^verbatim>\<open>category\<close>, \<^verbatim>\<open>color\<close> and \<^verbatim>\<open>price\<close> is a path
  of the schema: with \<^verbatim>\<open>strictQuery\<close> on, the mapper removes the three keys, and the filter
  that reaches the database is empty; with it off, the filter goes to the database as the
  handler built it.
\<close>

definition castFilter :: "bool \<Rightarrow> filter \<Rightarrow> filter" where
  "castFilter sq f =
     (if sq then \<lparr>f_category = None, f_color = None, f_price = None\<rparr> else f)"

text \<open>The order of numbers, as the database compares them; \<open>NaN\<close> is below every number.\<close>

fun num_le :: "jsnum \<Rightarrow> jsnum \<Rightarrow> bool" where
  "num_le NaN y = True"
| "num_le x NaN = (x = NaN)"
| "num_le NegInf y = True"
| "num_le x NegInf = (x = NegInf)"
| "num_le x PosInf = True"
| "num_le PosInf y = (y = PosInf)"
| "num_le (Fin a) (Fin b) = (a \<le> b)"

text \<open>
  \<^verbatim>\<open>{ $gte: min, $lte: max }\<close> on a stored field: the field holds a number within the two
  bounds.
\<close>

definition inRange :: "jsnum \<Rightarrow> jsnum \<Rightarrow> jsval \<Rightarrow> bool" where
  "inRange lo hi v = (case v of JNum x \<Rightarrow> num_le lo x \<and> num_le x hi | _ \<Rightarrow> False)"

text \<open>Whether a stored product matches a filter that has reached the database.\<close>

definition matchesFilter :: "filter \<Rightarrow> product \<Rightarrow> bool" where
  "matchesFilter f p =
     ((case f_category f of None \<Rightarrow> True
       | Some c \<Rightarrow> storedField p (js ''category'') = JStr c) \<and>
      (case f_color f of None \<Rightarrow> True
       | Some c \<Rightarrow> storedField p (js ''color'') = JStr c) \<and>
      (case f_price f of None \<Rightarrow> True
       | Some (lo, hi) \<Rightarrow> inRange lo hi (storedField p (js ''price''))))"

text \<open>
  The handler. The query is sorted by \<^verbatim>\<open>createdAt\<close> descending, then skipped and limited,
  whatever the order of the calls that build it; documents with equal \<^verbatim>\<open>createdAt\<close> keep
  the order of the collection. The model covers the requests whose \<^verbatim>\<open>page\<close> and \<^verbatim>\<open>limit\<close>
  parse to integers from 1 to \<open>2^53\<close> with a skip of at most \<open>2^53\<close> (the defaults are 1 and
  10): there the arithmetic of the handler is exact. What the driver makes of \<^verbatim>\<open>NaN\<close>,
  zero, a negative or a larger number as skip or limit is outside it, and the model
  answers \<open>None\<close>.
\<close>

definition pageParam :: "query \<Rightarrow> jsnum" where
  "pageParam q = (case q (js ''page'') of None \<Rightarrow> Fin 1 | Some v \<Rightarrow> parseInt v)"

definition limitParam :: "query \<Rightarrow> jsnum" where
  "limitParam q = (case q (js ''limit'') of None \<Rightarrow> Fin 10 | Some v \<Rightarrow> parseInt v)"

definition safeInteger :: "jsnum \<Rightarrow> int option" where
  "safeInteger x =
     (case x of
        Fin r \<Rightarrow> if of_int \<lfloor>r\<rfloor> = r \<and> \<bar>r\<bar> \<le> 2 ^ 53 then Some \<lfloor>r\<rfloor> else None
      | _ \<Rightarrow> None)"

definition newestFirst :: "product list \<Rightarrow> product list" where
  "newestFirst ps = sort_key (\<lambda>p. - int (p_createdAt p)) ps"

definition matching :: "env \<Rightarrow> store \<Rightarrow> query \<Rightarrow> product list" where
  "matching e s q =
     List.filter (matchesFilter (castFilter (strictQuery e) (buildFilter q))) (products s)"

definition list :: "env \<Rightarrow> store \<Rightarrow> query \<Rightarrow> response option" where
  "list e s q =
     (case (safeInteger (pageParam q), safeInteger (limitParam q)) of
        (Some page, Some limit) \<Rightarrow>
          if 1 \<le> page \<and> 1 \<le> limit \<and> (page - 1) * limit \<le> 2 ^ 53 then
            (let skip = (page - 1) * limit;
                 totalProducts = length (matching e s q);
                 totalPages = \<lceil>(of_nat totalProducts :: rat) / of_int limit\<rceil>;
                 found = take (nat limit) (drop (nat skip) (newestFirst (matching e s q)))
             in Some (OkList (map (populateAuthor (users s) False) found)
                        totalPages totalProducts))
          else None
      | _ \<Rightarrow> None)"

text \<open>Whether a number is finite, as \<^verbatim>\<open>Number.isFinite\<close> tells.\<close>

fun isFinite :: "jsnum \<Rightarrow> bool" where
  "isFinite (Fin x) = True"
| "isFinite x = False"

section \<open>GET /related/:id\<close>

text \<open>
  \<^verbatim>\<open>name.split(" ")\<close> cuts at every space; two spaces in a row give an empty piece, and the
  empty string gives one empty piece.
\<close>

fun splitOn :: "jschar \<Rightarrow> jsstring \<Rightarrow> jsstring list" where
  "splitOn sep [] = [[]]"
| "splitOn sep (c # cs) =
     (if c = sep then [] # splitOn sep cs
      else (case splitOn sep cs of [] \<Rightarrow> [[c]] | w # ws \<Rightarrow> (c # w) # ws))"

definition titleWords :: "jsstring \<Rightarrow> jsstring list" where
  "titleWords name = List.filter (\<lambda>word. 1 < length word) (splitOn 0x20 name)"

definition titlePattern :: "jsstring \<Rightarrow> jsstring" where
  "titlePattern name = join (js ''|'') (titleWords name)"

text \<open>
  The code units with a meaning of their own in a pattern, the bar apart:
  \<^verbatim>\<open>\ ^ $ . * + ? ( ) [ ] { }\<close>; and the null character, which the driver refuses in a pattern.
\<close>

definition isSyntaxChar :: "jschar \<Rightarrow> bool" where
  "isSyntaxChar c = (unat c \<in> {0, 92, 94, 36, 46, 42, 43, 63, 40, 41, 91, 93, 123, 125})"

text \<open>
  \<^verbatim>\<open>new RegExp(source, "i")\<close>, for the patterns the model covers. A pattern without syntax
  characters is the alternation of the literal strings between its bars. A pattern that
  begins with \<^verbatim>\<open>*\<close>, \<^verbatim>\<open>+\<close> or \<^verbatim>\<open>?\<close> has nothing to repeat: the constructor throws a
  SyntaxError. Any other pattern is outside the model.
\<close>

datatype regexp = Literals "jsstring list" | SyntaxError | Unmodelled

definition RegExp :: "jsstring \<Rightarrow> regexp" where
  "RegExp source =
     (if source \<noteq> [] \<and> unat (hd source) \<in> {42, 43, 63} then SyntaxError
      else if \<exists>c \<in> set source. isSyntaxChar c then Unmodelled
      else Literals (splitOn 0x7C source))"

fun startsWith :: "'a list \<Rightarrow> 'a list \<Rightarrow> bool" where
  "startsWith [] text = True"
| "startsWith (p # ps) [] = False"
| "startsWith (p # ps) (c # cs) = (p = c \<and> startsWith ps cs)"

fun occursIn :: "'a list \<Rightarrow> 'a list \<Rightarrow> bool" where
  "occursIn pat [] = (pat = [])"
| "occursIn pat (c # cs) = (startsWith pat (c # cs) \<or> occursIn pat cs)"

text \<open>
  \<^verbatim>\<open>{ name: { $regex: titleRegex } }\<close>: some alternative occurs somewhere in the name, case
  folded on both sides.
\<close>

definition regexMatches :: "(jschar \<Rightarrow> jschar) \<Rightarrow> jsstring list \<Rightarrow> jsstring \<Rightarrow> bool" where
  "regexMatches cf alts text = (\<exists>a \<in> set alts. occursIn (map cf a) (map cf text))"

text \<open>
  An equality condition on a field of the stored document, as the database reads it: a
  condition on \<^verbatim>\<open>undefined\<close> reaches the database as one on \<^verbatim>\<open>null\<close>, which a document
  matches when it has no such field or has \<^verbatim>\<open>null\<close> there.
\<close>

definition fieldEquals :: "jsval \<Rightarrow> jsval \<Rightarrow> bool" where
  "fieldEquals stored v = (if isNullish v then isNullish stored else stored = v)"

text \<open>
  \<^verbatim>\<open>{ category: product.category }\<close> in the \<^verbatim>\<open>$or\<close>: \<^verbatim>\<open>category\<close> is no path of the schema.
  With \<^verbatim>\<open>strictQuery\<close> on, the mapper removes the condition and the branch it empties, which
  then selects nothing; with it off, the condition goes to the database.
\<close>

definition matchesCategory :: "bool \<Rightarrow> jsval \<Rightarrow> product \<Rightarrow> bool" where
  "matchesCategory sq category p =
     (\<not> sq \<and> fieldEquals (storedField p (js ''category'')) category)"

text \<open>The handler; \<open>None\<close> when the pattern is outside the model.\<close>

definition related :: "env \<Rightarrow> store \<Rightarrow> jsstring \<Rightarrow> response option" where
  "related e s productId =
     (if productId = [] then Some BadRequest
      else case findById (products s) productId of
             None \<Rightarrow> Some ServerError
           | Some None \<Rightarrow> Some NotFound
           | Some (Some product) \<Rightarrow>
               (case RegExp (titlePattern (p_name product)) of
                  Unmodelled \<Rightarrow> None
                | SyntaxError \<Rightarrow> Some ServerError
                | Literals titleRegex \<Rightarrow>
                    Some (OkRelated
                      (List.filter
                         (\<lambda>p. p_id p \<noteq> p_id product \<and>
                              (regexMatches (caseFold e) titleRegex (p_name p) \<or>
                               matchesCategory (strictQuery e)
                                 (product_prop product (js ''category'')) p))
                         (products s)))))"

section \<open>Examples\<close>

text \<open>A store for the examples: two products, three reviews, one user.\<close>

definition hat :: product where
  "hat = \<lparr>p_id = 161, p_name = js ''Hat'', p_description = js ''A felt hat'',
          p_image = [js ''uploads/products/hat.png''], p_author = 7,
          p_createdAt = 1000, p_updatedAt = 1000, p_extra = Map.empty\<rparr>"

definition scarf :: product where
  "scarf = \<lparr>p_id = 162, p_name = js ''Scarf'', p_description = js ''A wool scarf'',
            p_image = [js ''uploads/products/scarf.png''], p_author = 8,
            p_createdAt = 2000, p_updatedAt = 2000, p_extra = Map.empty\<rparr>"

definition shop :: store where
  "shop = \<lparr>products = [hat, scarf],
           reviews = [\<lparr>r_id = 1, r_productId = 161, r_userId = 7, r_content = js ''warm''\<rparr>,
                      \<lparr>r_id = 2, r_productId = 162, r_userId = 7, r_content = js ''soft''\<rparr>,
                      \<lparr>r_id = 3, r_productId = 161, r_userId = 9, r_content = js ''fine''\<rparr>],
           users = [\<lparr>u_id = 7, u_username = js ''ann'', u_email = js ''ann@example.org''\<rparr>]\<rparr>"

text \<open>Stores for the related lookup: a product named by one letter, and a shoe shop.\<close>

definition letterA :: product where
  "letterA = \<lparr>p_id = 163, p_name = js ''A'', p_description = js ''The letter A'',
              p_image = [js ''uploads/products/a.png''], p_author = 7,
              p_createdAt = 3000, p_updatedAt = 3000, p_extra = Map.empty\<rparr>"

definition shopA :: store where
  "shopA = \<lparr>products = [letterA, hat, scarf], reviews = [], users = []\<rparr>"

definition redShoes :: product where
  "redShoes = \<lparr>p_id = 177, p_name = js ''Red Shoes Size 10'', p_description = js ''Shoes'',
               p_image = [js ''uploads/products/red.png''], p_author = 7,
               p_createdAt = 4000, p_updatedAt = 4000, p_extra = Map.empty\<rparr>"

definition blueShoes :: product where
  "blueShoes = \<lparr>p_id = 178, p_name = js ''Blue SHOES'', p_description = js ''Shoes'',
                p_image = [js ''uploads/products/blue.png''], p_author = 7,
                p_createdAt = 5000, p_updatedAt = 5000, p_extra = Map.empty\<rparr>"

definition newShoes :: product where
  "newShoes = \<lparr>p_id = 179, p_name = js ''**NEW** Red Shoes'', p_description = js ''Shoes'',
               p_image = [js ''uploads/products/new.png''], p_author = 7,
               p_createdAt = 6000, p_updatedAt = 6000, p_extra = Map.empty\<rparr>"

definition shoeShop :: store where
  "shoeShop = \<lparr>products = [redShoes, blueShoes, hat, newShoes], reviews = [], users = []\<rparr>"

text \<open>The product that a create request with the empty array as image leaves in the store.\<close>

definition bareHat :: product where
  "bareHat = \<lparr>p_id = 26, p_name = js ''Hat'', p_description = js ''A felt hat'',
          p_image = [], p_author = 161,
          p_createdAt = 1700000000000, p_updatedAt = 1700000000000, p_extra = Map.empty\<rparr>"

text \<open>A store whose documents hold a price, a field that is no path of the schema.\<close>

definition mug :: product where
  "mug = \<lparr>p_id = 193, p_name = js ''Mug'', p_description = js ''A mug'',
          p_image = [js ''uploads/products/mug.png''], p_author = 7,
          p_createdAt = 7000, p_updatedAt = 7000,
          p_extra = [js ''price'' \<mapsto> JNum (Fin 5)]\<rparr>"

definition kettle :: product where
  "kettle = \<lparr>p_id = 194, p_name = js ''Kettle'', p_description = js ''A kettle'',
             p_image = [js ''uploads/products/kettle.png''], p_author = 7,
             p_createdAt = 8000, p_updatedAt = 8000,
             p_extra = [js ''price'' \<mapsto> JNum (Fin 15)]\<rparr>"

definition lamp :: product where
  "lamp = \<lparr>p_id = 195, p_name = js ''Lamp'', p_description = js ''A lamp'',
           p_image = [js ''uploads/products/lamp.png''], p_author = 7,
           p_createdAt = 9000, p_updatedAt = 9000,
           p_extra = [js ''price'' \<mapsto> JNum (Fin 25)]\<rparr>"

definition pricedShop :: store where
  "pricedShop = \<lparr>products = [mug, kettle, lamp, hat], reviews = [], users = []\<rparr>"

definition pageQuery :: "string \<Rightarrow> string \<Rightarrow> query" where
  "pageQuery p l = [js ''page'' \<mapsto> js p, js ''limit'' \<mapsto> js l]"

definition priceQuery :: "string \<Rightarrow> string \<Rightarrow> query" where
  "priceQuery lo hi = [js ''minPrice'' \<mapsto> js lo, js ''maxPrice'' \<mapsto> js hi]"


section \<open>Properties of POST /create-product\<close>

lemmas create_eval =
  create_def save_def validated_def newProductArg_def strict_def schemaPaths_def
  restrict_map_def getProp_def isNullish_def castString_def castStringArray_def
  castObjectId_def parseObjectId_def hexval_def js_def Let_def

text \<open>
  C9. A create request whose body lacks one of \<^verbatim>\<open>name\<close>, \<^verbatim>\<open>description\<close>, \<^verbatim>\<open>image\<close> and
  \<^verbatim>\<open>author\<close> is answered with status 400, and the store is left as it was: no product is
  persisted.
\<close>

theorem create_missing_field:
  "k \<in> set schemaPaths \<Longrightarrow> body k = None \<Longrightarrow>
   status (fst (create e s body)) = 400 \<and> snd (create e s body) = s"
  by (auto simp: create_def schemaPaths_def getProp_def Let_def)

theorem create_missing_field_witness:
  "js ''image'' \<in> set schemaPaths \<and> (hatBody(js ''image'' := None)) (js ''image'') = None \<and>
   status (fst (create env0 emptyStore (hatBody(js ''image'' := None)))) = 400 \<and>
   snd (create env0 emptyStore (hatBody(js ''image'' := None))) = emptyStore"
  using create_missing_field [of "js ''image''" "hatBody(js ''image'' := None)" env0 emptyStore]
  by (simp add: schemaPaths_def)





section \<open>Properties of the queries by id\<close>

lemmas shop_eval = shop_def hat_def scarf_def parseObjectId_def hexval_def js_def

lemma deleteFirst_filter:
  "distinct (map f xs) \<Longrightarrow> deleteFirst (\<lambda>p. f p = k) xs = filter (\<lambda>p. f p \<noteq> k) xs"
  by (induction xs) (auto simp: image_iff intro!: filter_True[symmetric])

lemma find_id_absent: "k \<notin> set (map f xs) \<Longrightarrow> find (\<lambda>p. f p = k) xs = None"
  by (induction xs) auto

lemma find_id_present: "k \<in> set (map f xs) \<Longrightarrow> \<exists>p. find (\<lambda>p. f p = k) xs = Some p \<and> f p = k \<and> p \<in> set xs"
  by (induction xs) auto

lemma deleteProduct_absent:
  "parseObjectId productId = Some oid \<Longrightarrow> oid \<notin> set (map p_id (products s)) \<Longrightarrow>
   deleteProduct s productId = (NotFound, s)"
  by (simp add: deleteProduct_def findById_def find_id_absent)

lemma deleteProduct_present:
  "parseObjectId productId = Some oid \<Longrightarrow> oid \<in> set (map p_id (products s)) \<Longrightarrow>
   deleteProduct s productId =
     (OkDeleted, s\<lparr>products := deleteFirst (\<lambda>p. p_id p = oid) (products s),
                     reviews := filter (\<lambda>r. r_productId r \<noteq> oid) (reviews s)\<rparr>)"
  using find_id_present [of oid p_id "products s"]
  by (auto simp: deleteProduct_def findById_def Let_def)

text \<open>
  C7, as amended. A delete request whose id is an ObjectId, a string of 24 hexadecimal
  digits: when no product has that id, the answer is
  404 and neither the products nor the reviews change; when a product has it, the answer
  is 200, the product found is removed, and every review whose \<^verbatim>\<open>productId\<close> is that id is
  removed, so that a later query for the reviews of that product finds none. As ids are
  unique in the collection, no product with that id remains.
\<close>

theorem delete_cascade:
  assumes "parseObjectId productId = Some oid"
  shows "(oid \<notin> set (map p_id (products s)) \<longrightarrow>
            status (fst (deleteProduct s productId)) = 404 \<and> snd (deleteProduct s productId) = s) \<and>
         (oid \<in> set (map p_id (products s)) \<longrightarrow>
            status (fst (deleteProduct s productId)) = 200 \<and>
            products (snd (deleteProduct s productId)) = deleteFirst (\<lambda>p. p_id p = oid) (products s) \<and>
            reviews (snd (deleteProduct s productId)) = filter (\<lambda>r. r_productId r \<noteq> oid) (reviews s) \<and>
            filter (\<lambda>r. r_productId r = oid) (reviews (snd (deleteProduct s productId))) = [] \<and>
            (distinct (map p_id (products s)) \<longrightarrow>
               oid \<notin> set (map p_id (products (snd (deleteProduct s productId))))))"
proof (cases "oid \<in> set (map p_id (products s))")
  case False
  with deleteProduct_absent [OF assms] show ?thesis by simp
next
  case True
  have e: "filter (\<lambda>r. r_productId r = oid) (filter (\<lambda>r. r_productId r \<noteq> oid) (reviews s)) = []"
    by (simp add: filter_empty_conv)
  have f: "distinct (map p_id (products s)) \<Longrightarrow>
      oid \<notin> set (map p_id (deleteFirst (\<lambda>p. p_id p = oid) (products s)))"
    by (auto simp: deleteFirst_filter)
  from True e f show ?thesis
    by (simp add: deleteProduct_present [OF assms True])
qed

theorem delete_cascade_witness:
  "parseObjectId (js ''0000000000000000000000a1'') = Some 161 \<and>
   161 \<in> set (map p_id (products shop)) \<and> distinct (map p_id (products shop)) \<and>
   status (fst (deleteProduct shop (js ''0000000000000000000000a1''))) = 200 \<and>
   products (snd (deleteProduct shop (js ''0000000000000000000000a1''))) = [scarf] \<and>
   map r_id (reviews (snd (deleteProduct shop (js ''0000000000000000000000a1'')))) = [2] \<and>
   161 \<notin> set (map p_id (products (snd (deleteProduct shop (js ''0000000000000000000000a1'')))))"
proof -
  have a: "parseObjectId (js ''0000000000000000000000a1'') = Some 161"
    by (simp add: shop_eval)
  have c: "161 \<in> set (map p_id (products shop))" "distinct (map p_id (products shop))"
    by (simp_all add: shop_eval)
  have d: "deleteFirst (\<lambda>p. p_id p = 161) (products shop) = [scarf]"
    "map r_id (filter (\<lambda>r. r_productId r \<noteq> 161) (reviews shop)) = [2]"
    by (simp_all add: shop_eval)
  from delete_cascade [OF a, of shop] c
  have "status (fst (deleteProduct shop (js ''0000000000000000000000a1''))) = 200"
    "products (snd (deleteProduct shop (js ''0000000000000000000000a1''))) = deleteFirst (\<lambda>p. p_id p = 161) (products shop)"
    "reviews (snd (deleteProduct shop (js ''0000000000000000000000a1''))) = filter (\<lambda>r. r_productId r \<noteq> 161) (reviews shop)"
    "161 \<notin> set (map p_id (products (snd (deleteProduct shop (js ''0000000000000000000000a1'')))))"
    by blast+
  with a c d show ?thesis by (simp only: simp_thms)
qed

text \<open>
  The claim as stated covers every delete request. The id \<^verbatim>\<open>xyz\<close> is the id of no product
  and is no ObjectId: the cast of the lookup throws, and the answer is 500, not 404.
\<close>

theorem delete_malformed_id_counterexample:
  "parseObjectId (js ''xyz'') = None \<and>
   deleteProduct shop (js ''xyz'') = (ServerError, shop) \<and>
   status (fst (deleteProduct shop (js ''xyz''))) = 500"
  by (simp add: deleteProduct_def findById_def parseObjectId_def js_def)

lemma getProduct_absent:
  "parseObjectId productId = Some oid \<Longrightarrow> oid \<notin> set (map p_id (products s)) \<Longrightarrow>
   getProduct s productId = NotFound"
  by (simp add: getProduct_def findById_def find_id_absent)

lemma getProduct_present:
  "parseObjectId productId = Some oid \<Longrightarrow> find (\<lambda>q. p_id q = oid) (products s) = Some p \<Longrightarrow>
   getProduct s productId =
     OkProduct (populateAuthor (users s) True p)
       (map (populateUserId (users s)) (filter (\<lambda>r. r_productId r = oid) (reviews s)))"
  by (auto simp: getProduct_def findById_def dest: find_Some_iff[THEN iffD1])

text \<open>
  C8, as amended. A get-one request whose id is an ObjectId, a string of 24 hexadecimal
  digits: when no product has that id the answer is 404; when a product has it, the answer carries that product, its author populated, and
  exactly the reviews whose \<^verbatim>\<open>productId\<close> is that id, in the order of the collection, each
  with its user populated (username and email, or null when the user is gone).
\<close>

theorem get_product_with_reviews:
  assumes "parseObjectId productId = Some oid"
  shows "(oid \<notin> set (map p_id (products s)) \<longrightarrow> getProduct s productId = NotFound) \<and>
         (oid \<in> set (map p_id (products s)) \<longrightarrow>
            (\<exists>p rs. getProduct s productId = OkProduct p rs \<and>
               find (\<lambda>q. p_id q = oid) (products s) = Some (pp_product p) \<and>
               pp_author p = populate (users s) True (p_author (pp_product p)) \<and>
               map pr_review rs = filter (\<lambda>r. r_productId r = oid) (reviews s) \<and>
               (\<forall>r \<in> set rs. pr_user r = populate (users s) True (r_userId (pr_review r)))))"
proof (cases "oid \<in> set (map p_id (products s))")
  case False
  with getProduct_absent [OF assms] show ?thesis by simp
next
  case True
  then obtain p where p: "find (\<lambda>q. p_id q = oid) (products s) = Some p"
    using find_id_present [of oid p_id "products s"] by blast
  have m: "map pr_review (map (populateUserId (users s)) rs) = rs" for rs
    by (induction rs) (simp_all add: populateUserId_def)
  have u: "\<forall>r \<in> set (map (populateUserId (users s)) rs).
             pr_user r = populate (users s) True (r_userId (pr_review r))" for rs
    by (induction rs) (simp_all add: populateUserId_def)
  let ?P = "populateAuthor (users s) True p"
  let ?R = "map (populateUserId (users s)) (filter (\<lambda>r. r_productId r = oid) (reviews s))"
  have 1: "getProduct s productId = OkProduct ?P ?R"
    by (rule getProduct_present [OF assms p])
  have 2: "find (\<lambda>q. p_id q = oid) (products s) = Some (pp_product ?P)"
    using p by (simp add: populateAuthor_def)
  have 3: "pp_author ?P = populate (users s) True (p_author (pp_product ?P))"
    by (simp add: populateAuthor_def)
  have 4: "map pr_review ?R = filter (\<lambda>r. r_productId r = oid) (reviews s)"
    by (rule m)
  have 5: "\<forall>r \<in> set ?R. pr_user r = populate (users s) True (r_userId (pr_review r))"
    by (rule u)
  have "\<exists>p rs. getProduct s productId = OkProduct p rs \<and>
               find (\<lambda>q. p_id q = oid) (products s) = Some (pp_product p) \<and>
               pp_author p = populate (users s) True (p_author (pp_product p)) \<and>
               map pr_review rs = filter (\<lambda>r. r_productId r = oid) (reviews s) \<and>
               (\<forall>r \<in> set rs. pr_user r = populate (users s) True (r_userId (pr_review r)))"
    by (rule exI [of _ ?P], rule exI [of _ ?R]) (intro conjI 1 2 3 4 5)
  with True show ?thesis by (simp only: simp_thms)
qed

lemma populate_expands:
  "find (\<lambda>u. u_id u = uid) us = Some u \<Longrightarrow>
   populate us True uid = Some \<lparr>ref_id = uid, ref_username = Some (u_username u), ref_email = Some (u_email u)\<rparr>"
  by (auto simp: populate_def dest: find_Some_iff[THEN iffD1])

theorem get_product_with_reviews_witness:
  "parseObjectId (js ''0000000000000000000000a3'') = Some 163 \<and>
   163 \<notin> set (map p_id (products shop)) \<and>
   getProduct shop (js ''0000000000000000000000a3'') = NotFound \<and>
   getProduct shop (js ''0000000000000000000000a1'') =
     OkProduct \<lparr>pp_product = hat,
                 pp_author = Some \<lparr>ref_id = 7, ref_username = Some (js ''ann''),
                                    ref_email = Some (js ''ann@example.org'')\<rparr>\<rparr>
       [\<lparr>pr_review = \<lparr>r_id = 1, r_productId = 161, r_userId = 7, r_content = js ''warm''\<rparr>,
         pr_user = Some \<lparr>ref_id = 7, ref_username = Some (js ''ann''),
                          ref_email = Some (js ''ann@example.org'')\<rparr>\<rparr>,
        \<lparr>pr_review = \<lparr>r_id = 3, r_productId = 161, r_userId = 9, r_content = js ''fine''\<rparr>,
         pr_user = None\<rparr>]"
proof -
  have b: "parseObjectId (js ''0000000000000000000000a3'') = Some 163"
    by (simp add: shop_eval)
  have c: "163 \<notin> set (map p_id (products shop))"
    by (simp add: shop_eval)
  have g: "getProduct shop (js ''0000000000000000000000a1'') =
     OkProduct \<lparr>pp_product = hat,
                 pp_author = Some \<lparr>ref_id = 7, ref_username = Some (js ''ann''),
                                    ref_email = Some (js ''ann@example.org'')\<rparr>\<rparr>
       [\<lparr>pr_review = \<lparr>r_id = 1, r_productId = 161, r_userId = 7, r_content = js ''warm''\<rparr>,
         pr_user = Some \<lparr>ref_id = 7, ref_username = Some (js ''ann''),
                          ref_email = Some (js ''ann@example.org'')\<rparr>\<rparr>,
        \<lparr>pr_review = \<lparr>r_id = 3, r_productId = 161, r_userId = 9, r_content = js ''fine''\<rparr>,
         pr_user = None\<rparr>]"
  proof -
    have f1: "findById (products shop) (js ''0000000000000000000000a1'') = Some (Some hat)"
      by (simp add: findById_def shop_eval)
    have f2: "filter (\<lambda>r. r_productId r = p_id hat) (reviews shop) =
        [\<lparr>r_id = 1, r_productId = 161, r_userId = 7, r_content = js ''warm''\<rparr>,
         \<lparr>r_id = 3, r_productId = 161, r_userId = 9, r_content = js ''fine''\<rparr>]"
      by (simp add: shop_def hat_def)
    have f3: "populate (users shop) True 7 =
        Some \<lparr>ref_id = 7, ref_username = Some (js ''ann''), ref_email = Some (js ''ann@example.org'')\<rparr>"
      by (simp add: populate_def shop_def)
    have f4: "populate (users shop) True 9 = None"
      by (simp add: populate_def shop_def)
    have f5: "p_author hat = 7" by (simp add: hat_def)
    show ?thesis
      by (simp add: getProduct_def f1 f2 f3 f4 f5 populateAuthor_def populateUserId_def)
  qed
  from get_product_with_reviews [OF b, of shop] c
  have "getProduct shop (js ''0000000000000000000000a3'') = NotFound" by blast
  with b c g show ?thesis by (simp only: simp_thms)
qed

text \<open>
  The claim as stated has every nonexistent id answered with 404. The id \<^verbatim>\<open>xyz\<close> is the id
  of no product and is no ObjectId: the cast of the lookup throws, and the answer is 500.
\<close>

theorem get_malformed_id_counterexample:
  "parseObjectId (js ''xyz'') = None \<and>
   getProduct shop (js ''xyz'') = ServerError \<and>
   status (getProduct shop (js ''xyz'')) = 500"
  by (simp add: getProduct_def findById_def parseObjectId_def js_def)


section \<open>Properties of GET /\<close>

lemmas parse_eval = parseInt_def parseFloat_def exponentPart_def js_def isWhiteSpace_def
  radixDigit_def isDigit_def digitsValue_def toDouble_def roundHalfEven_def bitLength.simps
  Let_def

text \<open>A decimal literal beyond the range of the doubles parses to \<^verbatim>\<open>Infinity\<close>.\<close>

lemma parseFloat_overflow: "parseFloat (js ''1e400'') = PosInf"
  by (simp add: parse_eval)

lemma list_valid:
  "safeInteger (pageParam q) = Some page \<Longrightarrow> safeInteger (limitParam q) = Some limit \<Longrightarrow>
   1 \<le> page \<Longrightarrow> 1 \<le> limit \<Longrightarrow> (page - 1) * limit \<le> 2 ^ 53 \<Longrightarrow>
   list e s q =
     Some (OkList (map (populateAuthor (users s) False)
                     (take (nat limit) (drop (nat ((page - 1) * limit)) (newestFirst (matching e s q)))))
             \<lceil>(of_nat (length (matching e s q)) :: rat) / of_int limit\<rceil>
             (length (matching e s q)))"
  by (simp add: list_def Let_def)





lemma buildFilter_without_price:
  "buildFilter (q(js ''minPrice'' := None, js ''maxPrice'' := None)) =
     (buildFilter q)\<lparr>f_price := None\<rparr>"
  by (simp add: buildFilter_def js_def)

lemma matching_price:
  assumes "\<not> strictQuery e"
  shows "matching e s q =
     List.filter
       (\<lambda>p. case f_price (buildFilter q) of
               None \<Rightarrow> True
             | Some (lo, hi) \<Rightarrow>
                 (\<exists>v. storedField p (js ''price'') = JNum v \<and> num_le lo v \<and> num_le v hi))
       (matching e s (q(js ''minPrice'' := None, js ''maxPrice'' := None)))"
proof -
  have h: "matchesFilter (buildFilter q) p =
      (matchesFilter ((buildFilter q)\<lparr>f_price := None\<rparr>) p \<and>
       (case f_price (buildFilter q) of
          None \<Rightarrow> True
        | Some (lo, hi) \<Rightarrow>
            (\<exists>v. storedField p (js ''price'') = JNum v \<and> num_le lo v \<and> num_le v hi)))" for p
    by (auto simp: matchesFilter_def inRange_def split: option.splits jsval.splits)
  have "List.filter (matchesFilter (buildFilter q)) (products s) =
      List.filter
        (\<lambda>p. matchesFilter ((buildFilter q)\<lparr>f_price := None\<rparr>) p \<and>
          (case f_price (buildFilter q) of
             None \<Rightarrow> True
           | Some (lo, hi) \<Rightarrow>
               (\<exists>v. storedField p (js ''price'') = JNum v \<and> num_le lo v \<and> num_le v hi)))
        (products s)"
    by (rule filter_cong) (simp_all add: h)
  then show ?thesis
    using assms
    by (simp add: matching_def castFilter_def buildFilter_without_price)
qed

lemma list_lone_price:
  assumes "q (js ''minPrice'') = None \<or> q (js ''maxPrice'') = None"
  shows "f_price (buildFilter q) = None"
    and "list e s q = list e s (q(js ''minPrice'' := None, js ''maxPrice'' := None))"
proof -
  show 1: "f_price (buildFilter q) = None"
    using assms by (auto simp: buildFilter_def split: option.splits)
  then have "buildFilter q = buildFilter (q(js ''minPrice'' := None, js ''maxPrice'' := None))"
    by (simp add: buildFilter_without_price)
  then have m: "matching e s (q(js ''minPrice'' := None, js ''maxPrice'' := None)) = matching e s q"
    by (simp add: matching_def)
  have p: "pageParam (q(js ''minPrice'' := None, js ''maxPrice'' := None)) = pageParam q"
    "limitParam (q(js ''minPrice'' := None, js ''maxPrice'' := None)) = limitParam q"
    by (simp_all add: pageParam_def limitParam_def js_def)
  show "list e s q = list e s (q(js ''minPrice'' := None, js ''maxPrice'' := None))"
    unfolding list_def m p by (rule refl)
qed

text \<open>
  C5, as amended. The handler puts a price range into the filter if and only if
  \<^verbatim>\<open>minPrice\<close> and \<^verbatim>\<open>maxPrice\<close> are both present and not empty and \<^verbatim>\<open>parseFloat\<close> makes a number
  other than \<open>NaN\<close> of each; \<^verbatim>\<open>Infinity\<close> and \<^verbatim>\<open>-Infinity\<close> are such numbers. The bounds are
  the two numbers parsed. Where the filter reaches the database as the handler built it
  (\<^verbatim>\<open>strictQuery\<close> off), the range is applied to the result: the products matched are those
  that the request matches without the two parameters and whose stored price is a number
  within the bounds, and a request with valid \<^verbatim>\<open>page\<close> and \<^verbatim>\<open>limit\<close> counts and returns
  these. When one of the two is not supplied, no range is built, the answer is the one to
  the request without the other, and it has status 200 when \<^verbatim>\<open>page\<close> and \<^verbatim>\<open>limit\<close> are valid.
\<close>

theorem price_filter_applied:
  "(f_price (buildFilter q) \<noteq> None) =
     (\<exists>a b. q (js ''minPrice'') = Some a \<and> q (js ''maxPrice'') = Some b \<and> a \<noteq> [] \<and> b \<noteq> [] \<and>
            parseFloat a \<noteq> NaN \<and> parseFloat b \<noteq> NaN) \<and>
   (\<forall>a b. f_price (buildFilter q) = Some (a, b) \<longrightarrow>
      (\<exists>x y. q (js ''minPrice'') = Some x \<and> q (js ''maxPrice'') = Some y \<and>
             a = parseFloat x \<and> b = parseFloat y)) \<and>
   (\<not> strictQuery e \<longrightarrow>
      matching e s q =
        List.filter
          (\<lambda>p. case f_price (buildFilter q) of
                  None \<Rightarrow> True
                | Some (lo, hi) \<Rightarrow>
                    (\<exists>v. storedField p (js ''price'') = JNum v \<and> num_le lo v \<and> num_le v hi))
          (matching e s (q(js ''minPrice'' := None, js ''maxPrice'' := None)))) \<and>
   (\<forall>page limit.
      safeInteger (pageParam q) = Some page \<and> safeInteger (limitParam q) = Some limit \<and>
      1 \<le> page \<and> 1 \<le> limit \<and> (page - 1) * limit \<le> 2 ^ 53 \<longrightarrow>
      list e s q =
        Some (OkList (map (populateAuthor (users s) False)
                (take (nat limit) (drop (nat ((page - 1) * limit)) (newestFirst (matching e s q)))))
              \<lceil>(of_nat (length (matching e s q)) :: rat) / of_int limit\<rceil>
              (length (matching e s q)))) \<and>
   (q (js ''minPrice'') = None \<or> q (js ''maxPrice'') = None \<longrightarrow>
      f_price (buildFilter q) = None \<and>
      list e s q = list e s (q(js ''minPrice'' := None, js ''maxPrice'' := None)) \<and>
      (\<forall>page limit.
         safeInteger (pageParam q) = Some page \<and> safeInteger (limitParam q) = Some limit \<and>
         1 \<le> page \<and> 1 \<le> limit \<and> (page - 1) * limit \<le> 2 ^ 53 \<longrightarrow>
         (\<exists>r. list e s q = Some r \<and> status r = 200)))"
proof (intro conjI)
  show "(f_price (buildFilter q) \<noteq> None) =
     (\<exists>a b. q (js ''minPrice'') = Some a \<and> q (js ''maxPrice'') = Some b \<and> a \<noteq> [] \<and> b \<noteq> [] \<and>
            parseFloat a \<noteq> NaN \<and> parseFloat b \<noteq> NaN)"
    by (auto simp: buildFilter_def Let_def split: option.splits)
  show "\<forall>a b. f_price (buildFilter q) = Some (a, b) \<longrightarrow>
      (\<exists>x y. q (js ''minPrice'') = Some x \<and> q (js ''maxPrice'') = Some y \<and>
             a = parseFloat x \<and> b = parseFloat y)"
    by (auto simp: buildFilter_def Let_def split: option.splits if_splits)
  show "\<not> strictQuery e \<longrightarrow>
      matching e s q =
        List.filter
          (\<lambda>p. case f_price (buildFilter q) of
                  None \<Rightarrow> True
                | Some (lo, hi) \<Rightarrow>
                    (\<exists>v. storedField p (js ''price'') = JNum v \<and> num_le lo v \<and> num_le v hi))
          (matching e s (q(js ''minPrice'' := None, js ''maxPrice'' := None)))"
    using matching_price by blast
  show "\<forall>page limit.
      safeInteger (pageParam q) = Some page \<and> safeInteger (limitParam q) = Some limit \<and>
      1 \<le> page \<and> 1 \<le> limit \<and> (page - 1) * limit \<le> 2 ^ 53 \<longrightarrow>
      list e s q =
        Some (OkList (map (populateAuthor (users s) False)
                (take (nat limit) (drop (nat ((page - 1) * limit)) (newestFirst (matching e s q)))))
              \<lceil>(of_nat (length (matching e s q)) :: rat) / of_int limit\<rceil>
              (length (matching e s q)))"
    using list_valid by blast
  show "q (js ''minPrice'') = None \<or> q (js ''maxPrice'') = None \<longrightarrow>
      f_price (buildFilter q) = None \<and>
      list e s q = list e s (q(js ''minPrice'' := None, js ''maxPrice'' := None)) \<and>
      (\<forall>page limit.
         safeInteger (pageParam q) = Some page \<and> safeInteger (limitParam q) = Some limit \<and>
         1 \<le> page \<and> 1 \<le> limit \<and> (page - 1) * limit \<le> 2 ^ 53 \<longrightarrow>
         (\<exists>r. list e s q = Some r \<and> status r = 200))"
  proof (intro impI conjI allI)
    assume a: "q (js ''minPrice'') = None \<or> q (js ''maxPrice'') = None"
    show "f_price (buildFilter q) = None" using a by (rule list_lone_price(1))
    show "list e s q = list e s (q(js ''minPrice'' := None, js ''maxPrice'' := None))"
      using a by (rule list_lone_price(2))
    fix page limit
    assume "safeInteger (pageParam q) = Some page \<and> safeInteger (limitParam q) = Some limit \<and>
         1 \<le> page \<and> 1 \<le> limit \<and> (page - 1) * limit \<le> 2 ^ 53"
    then show "\<exists>r. list e s q = Some r \<and> status r = 200"
      using list_valid [of q page limit e s] by simp
  qed
qed

text \<open>
  The claim as stated asks that both parse as finite numbers. With \<^verbatim>\<open>minPrice=-Infinity\<close>
  and \<^verbatim>\<open>maxPrice=Infinity\<close> neither does, and the range is built; where the filter reaches
  the database, it is applied: of the priced store, the product without a price is left out.
\<close>

theorem price_filter_infinite_counterexample:
  "priceQuery ''-Infinity'' ''Infinity'' (js ''minPrice'') = Some (js ''-Infinity'') \<and>
   priceQuery ''-Infinity'' ''Infinity'' (js ''maxPrice'') = Some (js ''Infinity'') \<and>
   \<not> isFinite (parseFloat (js ''-Infinity'')) \<and> \<not> isFinite (parseFloat (js ''Infinity'')) \<and>
   f_price (buildFilter (priceQuery ''-Infinity'' ''Infinity'')) = Some (NegInf, PosInf) \<and>
   matching env0 pricedShop (priceQuery ''-Infinity'' ''Infinity'') = [mug, kettle, lamp]"
proof -
  have f: "f_price (buildFilter (priceQuery ''-Infinity'' ''Infinity'')) = Some (NegInf, PosInf)"
    by (simp add: buildFilter_def priceQuery_def parse_eval)
  have c: "castFilter (strictQuery env0) (buildFilter (priceQuery ''-Infinity'' ''Infinity'')) =
      \<lparr>f_category = None, f_color = None, f_price = Some (NegInf, PosInf)\<rparr>"
    by (simp add: castFilter_def env0_def buildFilter_def priceQuery_def parse_eval)
  have m: "matching env0 pricedShop (priceQuery ''-Infinity'' ''Infinity'') = [mug, kettle, lamp]"
    unfolding matching_def c
    by (simp add: matchesFilter_def inRange_def storedField_def getProp_def pricedShop_def
        mug_def kettle_def lamp_def hat_def js_def)
  have p: "\<not> isFinite (parseFloat (js ''-Infinity''))" "\<not> isFinite (parseFloat (js ''Infinity''))"
    by (simp_all add: parse_eval)
  have k: "priceQuery ''-Infinity'' ''Infinity'' (js ''minPrice'') = Some (js ''-Infinity'')"
    "priceQuery ''-Infinity'' ''Infinity'' (js ''maxPrice'') = Some (js ''Infinity'')"
    by (simp_all add: priceQuery_def js_def)
  from f m p k show ?thesis by simp
qed

theorem price_filter_applied_witness:
  "f_price (buildFilter (priceQuery ''10'' ''20'')) = Some (Fin 10, Fin 20) \<and>
   matching env0 pricedShop (priceQuery ''10'' ''20'') = [kettle] \<and>
   matching env0 pricedShop Map.empty = [mug, kettle, lamp, hat] \<and>
   list env0 pricedShop (priceQuery ''10'' ''20'') =
     Some (OkList [\<lparr>pp_product = kettle, pp_author = None\<rparr>] 1 1) \<and>
   f_price (buildFilter [js ''minPrice'' \<mapsto> js ''10'']) = None \<and>
   (\<exists>r. list env0 pricedShop [js ''minPrice'' \<mapsto> js ''10''] = Some r \<and> status r = 200)"
proof -
  let ?q = "priceQuery ''10'' ''20''"
  let ?l = "[js ''minPrice'' \<mapsto> js ''10'']"
  have f: "f_price (buildFilter ?q) = Some (Fin 10, Fin 20)"
    by (simp add: buildFilter_def priceQuery_def parse_eval)
  have q0: "?q(js ''minPrice'' := None, js ''maxPrice'' := None) = Map.empty"
    by (simp add: priceQuery_def)
  have e: "\<not> strictQuery env0" by (simp add: env0_def)
  have m0: "matching env0 pricedShop Map.empty = [mug, kettle, lamp, hat]"
    by (simp add: matching_def castFilter_def buildFilter_def matchesFilter_def env0_def
        pricedShop_def)
  have sf: "storedField mug (js ''price'') = JNum (Fin 5)"
    "storedField kettle (js ''price'') = JNum (Fin 15)"
    "storedField lamp (js ''price'') = JNum (Fin 25)"
    "storedField hat (js ''price'') = JUndefined"
    by (simp_all add: storedField_def getProp_def mug_def kettle_def lamp_def hat_def js_def)
  from price_filter_applied [of ?q env0 pricedShop] e
  have "matching env0 pricedShop ?q =
        List.filter
          (\<lambda>p. case f_price (buildFilter ?q) of
                  None \<Rightarrow> True
                | Some (lo, hi) \<Rightarrow>
                    (\<exists>v. storedField p (js ''price'') = JNum v \<and> num_le lo v \<and> num_le v hi))
          (matching env0 pricedShop (?q(js ''minPrice'' := None, js ''maxPrice'' := None)))"
    by blast
  then have m: "matching env0 pricedShop ?q = [kettle]"
    by (simp add: f q0 m0 sf)
  have p: "safeInteger (pageParam ?q) = Some 1" "safeInteger (limitParam ?q) = Some 10"
    "safeInteger (pageParam ?l) = Some 1" "safeInteger (limitParam ?l) = Some 10"
    by (simp_all add: pageParam_def limitParam_def safeInteger_def priceQuery_def js_def)
  have a: "populateAuthor (users pricedShop) False kettle = \<lparr>pp_product = kettle, pp_author = None\<rparr>"
    by (simp add: populateAuthor_def populate_def pricedShop_def)
  have t: "\<lceil>(1::rat) / 10\<rceil> = 1" by (rule ceiling_unique) simp_all
  have l: "list env0 pricedShop ?q = Some (OkList [\<lparr>pp_product = kettle, pp_author = None\<rparr>] 1 1)"
    using list_valid [OF p(1) p(2), of env0 pricedShop]
    by (simp add: m a t newestFirst_def)
  have o: "?l (js ''maxPrice'') = None" by (simp add: js_def)
  from price_filter_applied [of ?l env0 pricedShop] o p(3) p(4)
  have "f_price (buildFilter ?l) = None" "\<exists>r. list env0 pricedShop ?l = Some r \<and> status r = 200"
    by auto
  with f m m0 l show ?thesis by simp
qed


section \<open>Properties of GET /related/:id\<close>

lemma occursIn_Nil: "occursIn [] t"
  by (induction t) simp_all

lemma findById_Some_nonempty: "findById ps productId = Some r \<Longrightarrow> productId \<noteq> []"
  by (auto simp: findById_def parseObjectId_def split: option.splits if_splits)

text \<open>
  C3. The claim is that a target whose name has no word longer than one code unit gets no
  match from the name pattern. The handler has no case for it: the words that are left
  join to the empty pattern, which matches every name, and the answer holds every other
  product of the catalogue, whatever becomes of the category condition.
\<close>

theorem related_no_words:
  assumes "findById (products s) productId = Some (Some t)" "titleWords (p_name t) = []"
  shows "titlePattern (p_name t) = [] \<and>
         (\<forall>nm. regexMatches (caseFold e) (splitOn 0x7C (titlePattern (p_name t))) nm) \<and>
         related e s productId = Some (OkRelated (filter (\<lambda>p. p_id p \<noteq> p_id t) (products s)))"
proof -
  have 1: "titlePattern (p_name t) = []" using assms(2) by (simp add: titlePattern_def)
  have 2: "RegExp (titlePattern (p_name t)) = Literals [[]]" by (simp add: 1 RegExp_def)
  have 3: "regexMatches (caseFold e) [[]] nm" for nm
    by (simp add: regexMatches_def occursIn_Nil)
  have "productId \<noteq> []" using assms(1) by (rule findById_Some_nonempty)
  then have "related e s productId = Some (OkRelated (filter (\<lambda>p. p_id p \<noteq> p_id t) (products s)))"
    by (simp add: related_def assms(1) 2 3)
  with 1 3 show ?thesis by simp
qed


lemmas related_eval = findById_def parseObjectId_def hexval_def js_def

theorem related_no_words_witness:
  "findById (products shopA) (js ''0000000000000000000000a3'') = Some (Some letterA) \<and>
   titleWords (p_name letterA) = [] \<and>
   related (env0\<lparr>strictQuery := True\<rparr>) shopA (js ''0000000000000000000000a3'')
     = Some (OkRelated [hat, scarf]) \<and>
   related env0 shopA (js ''0000000000000000000000a3'') = Some (OkRelated [hat, scarf])"
proof -
  have f: "findById (products shopA) (js ''0000000000000000000000a3'') = Some (Some letterA)"
    by (simp add: related_eval shopA_def letterA_def hat_def scarf_def)
  have w: "titleWords (p_name letterA) = []"
    by (simp add: titleWords_def letterA_def js_def)
  have x: "filter (\<lambda>p. p_id p \<noteq> p_id letterA) (products shopA) = [hat, scarf]"
    by (simp add: shopA_def letterA_def hat_def scarf_def)
  from related_no_words [OF f w, of "env0\<lparr>strictQuery := True\<rparr>"]
       related_no_words [OF f w, of env0] f w x
  show ?thesis by simp
qed

lemma join_Cons_hd: "w \<noteq> [] \<Longrightarrow> join sep (w # ws) \<noteq> [] \<and> hd (join sep (w # ws)) = hd w"
  by (cases ws) simp_all

text \<open>
  C2. The claim is that a target with a word longer than one code unit gets the products
  that match the alternation of its words or share its category. The handler joins the
  words into the pattern as they are, with no escaping: when the first of them begins with
  \<^verbatim>\<open>*\<close>, \<^verbatim>\<open>+\<close> or \<^verbatim>\<open>?\<close>, the pattern has nothing to repeat, the constructor of the regular
  expression throws, and the answer is 500 with no sequence of products.
\<close>

theorem related_syntax_error:
  assumes "findById (products s) productId = Some (Some t)"
    and "titleWords (p_name t) = w # ws"
    and "unat (hd w) \<in> {42, 43, 63}"
  shows "related e s productId = Some ServerError"
proof -
  have "w \<in> set (titleWords (p_name t))" using assms(2) by simp
  then have "1 < length w" by (simp add: titleWords_def)
  then have "w \<noteq> []" by auto
  then have "titlePattern (p_name t) \<noteq> [] \<and> hd (titlePattern (p_name t)) = hd w"
    unfolding titlePattern_def assms(2) by (rule join_Cons_hd)
  with assms(3) have 1: "RegExp (titlePattern (p_name t)) = SyntaxError"
    by (simp add: RegExp_def)
  have 2: "productId \<noteq> []" using assms(1) by (rule findById_Some_nonempty)
  show ?thesis
    by (simp add: related_def assms(1) 1 2)
qed

theorem related_syntax_error_witness:
  "findById (products shoeShop) (js ''0000000000000000000000b3'') = Some (Some newShoes) \<and>
   titleWords (p_name newShoes) = [js ''**NEW**'', js ''Red'', js ''Shoes''] \<and>
   unat (hd (js ''**NEW**'')) = 42 \<and>
   related env0 shoeShop (js ''0000000000000000000000b3'') = Some ServerError \<and>
   status ServerError = 500"
proof -
  have f: "findById (products shoeShop) (js ''0000000000000000000000b3'') = Some (Some newShoes)"
    by (simp add: related_eval shoeShop_def redShoes_def blueShoes_def hat_def newShoes_def)
  have w: "titleWords (p_name newShoes) = [js ''**NEW**'', js ''Red'', js ''Shoes'']"
    by (simp add: titleWords_def newShoes_def js_def)
  have h: "unat (hd (js ''**NEW**'')) = 42" by (simp add: js_def)
  from h have h': "unat (hd (js ''**NEW**'')) \<in> {42, 43, 63}" by simp
  from related_syntax_error [OF f w h', of env0] f w h show ?thesis by simp
qed


section \<open>Properties of the image sequence\<close>

text \<open>
  C6. The claim is that every product in the store has a non-empty image sequence, create
  rejecting the inputs that would give an empty one. The handler asks only that \<^verbatim>\<open>image\<close>
  be truthy, which the empty array is, and the required validator of an array path
  accepts the empty array: the create request is answered with 201 and the product is
  stored with no image.
\<close>

theorem create_accepts_empty_image:
  "truthy (JArr []) \<and>
   create env0 emptyStore (hatBody(js ''image'' \<mapsto> JArr []))
     = (Created bareHat, emptyStore\<lparr>products := [bareHat]\<rparr>) \<and>
   p_image bareHat = []"
proof -
  have c: "create env0 emptyStore (hatBody(js ''image'' \<mapsto> JArr []))
     = (Created bareHat, emptyStore\<lparr>products := [bareHat]\<rparr>)"
    by (simp add: create_eval hatBody_def env0_def emptyStore_def bareHat_def)
  have n: "p_image bareHat = []" by (simp add: bareHat_def)
  from c n show ?thesis by simp
qed

theorem create_accepts_empty_image_witness:
  "\<exists>p s'. create env0 emptyStore (hatBody(js ''image'' \<mapsto> JArr [])) = (Created p, s') \<and>
      status (Created p) = 201 \<and> p \<in> set (products s') \<and> p_image p = []"
  using create_accepts_empty_image by (simp add: emptyStore_def)


end
